theory Spec2Isabelle
  imports Main
begin

section \<open>Values\<close>

text \<open>
  The handlers of \<^verbatim>\<open>app.py\<close> build and return plain Python values: dict literals
  with string keys whose values are ints, strings, floats and lists. The same kind of value is
  what a decoded JSON request body is. A dict is an association list in the order the literal
  is written; looking a key up takes the first binding.

  A Python string is kept as its bytes in UTF-8, extended to the surrogate code points that a
  Python string may hold (the bytes that \<^verbatim>\<open>encode("utf-8", "surrogatepass")\<close> gives); the
  string literals of the source are ASCII.

  A float is kept as the decimal literal of the source: \<open>Decimal m k\<close> stands for the float
  that Python reads from the text of \<open>m\<close> with the point \<open>k\<close> digits from the right, so
  \<^verbatim>\<open>8.8\<close> is \<open>Decimal 88 1\<close>. No arithmetic is done on floats anywhere in the module.
\<close>

datatype float_lit = Decimal int nat

datatype pyval =
    PyNone
  | PyBool bool
  | PyInt int
  | PyFloat float_lit
  | PyStr string
  | PyList "pyval list"
  | PyDict "(string \<times> pyval) list"

fun field :: "string \<Rightarrow> pyval \<Rightarrow> pyval option" where
  "field k (PyDict kvs) = map_of kvs k"
| "field k _ = None"

fun keys :: "pyval \<Rightarrow> string list" where
  "keys (PyDict kvs) = map fst kvs"
| "keys _ = []"

section \<open>The module\<close>

text \<open>
  \<^verbatim>\<open>class RecommendationRequest(BaseModel): genres: List[str]\<close>
\<close>

record RecommendationRequest =
  genres :: "string list"

text \<open>
  \<^verbatim>\<open>def root() -> Dict[str, str]\<close>
\<close>

definition root :: pyval where
  "root = PyDict [(''status'', PyStr ''Cinna GraphRAG backend is running!'')]"

text \<open>
  \<^verbatim>\<open>def recommend_movies(request: RecommendationRequest) -> Dict[str, Any]\<close>:
  the list \<^verbatim>\<open>movies\<close> is a local of the function, built anew by each call.
\<close>

definition recommend_movies :: "RecommendationRequest \<Rightarrow> pyval" where
  "recommend_movies request =
    (let movies = [
        PyDict [
          (''id'', PyInt 1),
          (''title'', PyStr ''Inception''),
          (''overview'', PyStr ''A thief enters dreams to steal secrets.''),
          (''release_date'', PyStr ''2010-07-16''),
          (''poster_path'', PyStr ''/9gk7adHYeDvHkCSEqAvQNLV5Uge.jpg''),
          (''vote_average'', PyFloat (Decimal 88 1))
        ],
        PyDict [
          (''id'', PyInt 2),
          (''title'', PyStr ''Dune: Part Two''),
          (''overview'', PyStr ''Paul unites with the Fremen against Harkonnen.''),
          (''release_date'', PyStr ''2024-03-01''),
          (''poster_path'', PyStr ''/1E5baAaEse26fej7uHcjOgEE2t2.jpg''),
          (''vote_average'', PyFloat (Decimal 86 1))
        ],
        PyDict [
          (''id'', PyInt 3),
          (''title'', PyStr ''Interstellar''),
          (''overview'', PyStr ''A crew travels through a wormhole for humanity.''),
          (''release_date'', PyStr ''2014-11-07''),
          (''poster_path'', PyStr ''/gEU2QniE6E77NI6lCU6MxlNBvIx.jpg''),
          (''vote_average'', PyFloat (Decimal 87 1))
        ]
      ]
     in PyDict [(''query'', PyList (map PyStr (genres request))), (''response'', PyList movies)])"

section \<open>The handlers over a store\<close>

text \<open>
  Lists and dicts are mutable objects, held by reference. To speak of what a call reads and
  writes, the handlers are given a second time over an explicit store: the module's globals
  and a heap of objects, an address being a position in the heap. Strings and numbers are
  immutable and kept in place. Creating an object appends it to the heap.
\<close>

type_synonym addr = nat

datatype hval =
    HNone
  | HBool bool
  | HInt int
  | HFloat float_lit
  | HStr string
  | HRef addr

datatype hobj =
    HList "hval list"
  | HDict "(string \<times> hval) list"

record pystate =
  globals :: "(string \<times> hval) list"
  heap :: "hobj list"

definition alloc :: "hobj \<Rightarrow> pystate \<Rightarrow> addr \<times> pystate" where
  "alloc ob s = (length (heap s), s\<lparr>heap := heap s @ [ob]\<rparr>)"

text \<open>
  The parameter of \<^verbatim>\<open>recommend_movies\<close> as the handler gets it: an instance whose
  \<^verbatim>\<open>genres\<close> attribute refers to a list object.
\<close>

record RecommendationRequest_obj =
  genres_ref :: addr

text \<open>
  \<^verbatim>\<open>root\<close>: the dict display creates one object; no name is read or assigned.
\<close>

definition root_st :: "pystate \<Rightarrow> hval \<times> pystate" where
  "root_st s =
    (let (r, s1) = alloc (HDict [(''status'', HStr ''Cinna GraphRAG backend is running!'')]) s
     in (HRef r, s1))"

text \<open>
  \<^verbatim>\<open>recommend_movies\<close>: the list display creates the three dicts from left to right and
  then the list; the returned dict holds \<^verbatim>\<open>request.genres\<close> itself (the reference, no
  copy) and the new list. The only names read are the locals \<^verbatim>\<open>request\<close> and
  \<^verbatim>\<open>movies\<close>.
\<close>

definition recommend_movies_st :: "RecommendationRequest_obj \<Rightarrow> pystate \<Rightarrow> hval \<times> pystate" where
  "recommend_movies_st request s =
    (let (m1, s1) = alloc (HDict [
          (''id'', HInt 1),
          (''title'', HStr ''Inception''),
          (''overview'', HStr ''A thief enters dreams to steal secrets.''),
          (''release_date'', HStr ''2010-07-16''),
          (''poster_path'', HStr ''/9gk7adHYeDvHkCSEqAvQNLV5Uge.jpg''),
          (''vote_average'', HFloat (Decimal 88 1))
        ]) s;
         (m2, s2) = alloc (HDict [
          (''id'', HInt 2),
          (''title'', HStr ''Dune: Part Two''),
          (''overview'', HStr ''Paul unites with the Fremen against Harkonnen.''),
          (''release_date'', HStr ''2024-03-01''),
          (''poster_path'', HStr ''/1E5baAaEse26fej7uHcjOgEE2t2.jpg''),
          (''vote_average'', HFloat (Decimal 86 1))
        ]) s1;
         (m3, s3) = alloc (HDict [
          (''id'', HInt 3),
          (''title'', HStr ''Interstellar''),
          (''overview'', HStr ''A crew travels through a wormhole for humanity.''),
          (''release_date'', HStr ''2014-11-07''),
          (''poster_path'', HStr ''/gEU2QniE6E77NI6lCU6MxlNBvIx.jpg''),
          (''vote_average'', HFloat (Decimal 87 1))
        ]) s2;
         (movies, s4) = alloc (HList [HRef m1, HRef m2, HRef m3]) s3;
         (r, s5) = alloc (HDict [(''query'', HRef (genres_ref request)),
                                 (''response'', HRef movies)]) s4
     in (HRef r, s5))"

text \<open>
  The value a reference stands for, read off the heap. Each reference followed uses one unit
  of fuel; a dangling reference, or a chain of references longer than the fuel, gives
  \<open>None\<close>.
\<close>

fun render :: "nat \<Rightarrow> hobj list \<Rightarrow> hval \<Rightarrow> pyval option" where
  "render n h HNone = Some PyNone"
| "render n h (HBool b) = Some (PyBool b)"
| "render n h (HInt i) = Some (PyInt i)"
| "render n h (HFloat x) = Some (PyFloat x)"
| "render n h (HStr s) = Some (PyStr s)"
| "render 0 h (HRef a) = None"
| "render (Suc n) h (HRef a) =
     (if a < length h then
        (case h ! a of
           HList vs \<Rightarrow> map_option PyList (those (map (render n h) vs))
         | HDict kvs \<Rightarrow>
             map_option PyDict
               (those (map (\<lambda>kv. map_option (Pair (fst kv)) (render n h (snd kv))) kvs)))
      else None)"

section \<open>The routes\<close>

text \<open>
  The answers of a route that are not a value of its handler: the framework's validation
  failure (a client error), and the server error it answers with when the handler or the
  rendering of its value raises. The module has no \<^verbatim>\<open>raise\<close> of its own.
\<close>

datatype http_error = RequestValidationError | InternalServerError




text \<open>
  The framework sends a handler's value as JSON text encoded in UTF-8. This step is the
  framework's too and the specification does not describe it; it is modelled here as far as
  the values of these two handlers go. Their ints and floats are the literals of the source
  and always have a JSON text; a string has a UTF-8 encoding unless it holds a surrogate code
  point, which a JSON request body can bring in with an escape such as \<^verbatim>\<open>"\ud800"\<close>.
  In the bytes of a string a surrogate is the byte \<open>0xED\<close> followed by a byte from
  \<open>0xA0\<close> on. A value that cannot be encoded makes the route answer with the server error.
\<close>

fun has_surrogate :: "string \<Rightarrow> bool" where
  "has_surrogate (a # b # cs) =
     ((of_char a = (0xED :: nat) \<and> (0xA0 :: nat) \<le> of_char b) \<or> has_surrogate (b # cs))"
| "has_surrogate cs = False"

fun encodable :: "pyval \<Rightarrow> bool" where
  "encodable (PyStr s) = (\<not> has_surrogate s)"
| "encodable (PyList xs) = list_all encodable xs"
| "encodable (PyDict kvs) =
     list_all (\<lambda>kv. \<not> has_surrogate (fst kv) \<and> encodable (snd kv)) kvs"
| "encodable v = True"

definition respond :: "pyval \<Rightarrow> http_error + pyval" where
  "respond v = (if encodable v then Inr v else Inl InternalServerError)"

text \<open>
  \<^verbatim>\<open>@app.get("/")\<close> and \<^verbatim>\<open>@app.post("/recommendations")\<close>: the first route has no
  parameter; the second validates the body into the handler's parameter and calls the handler
  only when that succeeds. Either sends what its handler returned.
\<close>

definition get_root :: "http_error + pyval" where
  "get_root = respond root"


section \<open>Shapes the specification speaks of\<close>

fun is_int :: "pyval \<Rightarrow> bool" where
  "is_int (PyInt i) = True"
| "is_int _ = False"

fun is_str :: "pyval \<Rightarrow> bool" where
  "is_str (PyStr s) = True"
| "is_str _ = False"

fun is_float :: "pyval \<Rightarrow> bool" where
  "is_float (PyFloat x) = True"
| "is_float _ = False"

definition typed :: "string \<Rightarrow> (pyval \<Rightarrow> bool) \<Rightarrow> pyval \<Rightarrow> bool" where
  "typed k p m = (case field k m of None \<Rightarrow> False | Some v \<Rightarrow> p v)"

fun int_field :: "string \<Rightarrow> pyval \<Rightarrow> int option" where
  "int_field k m = (case field k m of Some (PyInt i) \<Rightarrow> Some i | _ \<Rightarrow> None)"

fun str_field :: "string \<Rightarrow> pyval \<Rightarrow> string option" where
  "str_field k m = (case field k m of Some (PyStr s) \<Rightarrow> Some s | _ \<Rightarrow> None)"

text \<open>
  The MovieRecord shape of the specification: exactly the six fields, each of its type.
\<close>

definition is_movie_record :: "pyval \<Rightarrow> bool" where
  "is_movie_record m =
     (distinct (keys m) \<and>
      set (keys m) =
        {''id'', ''title'', ''overview'', ''release_date'', ''poster_path'', ''vote_average''} \<and>
      typed ''id'' is_int m \<and>
      typed ''title'' is_str m \<and>
      typed ''overview'' is_str m \<and>
      typed ''release_date'' is_str m \<and>
      typed ''poster_path'' is_str m \<and>
      typed ''vote_average'' is_float m)"

text \<open>
  A calendar date written \<open>YYYY-MM-DD\<close>: ten characters, all digits but for a hyphen as the
  fifth and as the eighth.
\<close>

definition is_digit :: "char \<Rightarrow> bool" where
  "is_digit c = (c \<in> set ''0123456789'')"

definition iso_date :: "string \<Rightarrow> bool" where
  "iso_date s =
     (length s = 10 \<and>
      list_all is_digit (take 4 s) \<and>
      s ! 4 = CHR ''-'' \<and>
      list_all is_digit (take 2 (drop 5 s)) \<and>
      s ! 7 = CHR ''-'' \<and>
      list_all is_digit (drop 8 s))"

definition has_iso_release_date :: "pyval \<Rightarrow> bool" where
  "has_iso_release_date m =
     (case str_field ''release_date'' m of None \<Rightarrow> False | Some d \<Rightarrow> iso_date d)"

section \<open>Two example stores\<close>

text \<open>
  Two stores that differ in their globals and in their heaps, each with a request whose
  genres list holds the one string \<open>horror\<close>.
\<close>

definition store_a :: pystate where
  "store_a = \<lparr>globals = [], heap = [HList [HStr ''horror'']]\<rparr>"

definition request_a :: RecommendationRequest_obj where
  "request_a = \<lparr>genres_ref = 0\<rparr>"

definition store_b :: pystate where
  "store_b = \<lparr>globals = [(''app'', HInt 7)], heap = [HDict [], HList [HStr ''horror'']]\<rparr>"

definition request_b :: RecommendationRequest_obj where
  "request_b = \<lparr>genres_ref = 1\<rparr>"

section \<open>Validation, encoding and the store\<close>








lemma those_render_strs: "those (map (render n h \<circ> HStr) gs) = Some (map PyStr gs)"
  by (induction gs) simp_all




section \<open>The recommendation endpoint\<close>

text \<open>
  C1: for every request, whatever its genres (the empty list included), the \<open>response\<close>
  field of the value returned by \<open>recommend_movies\<close> is one and the same list of three
  movie records.
\<close>

theorem recommend_movies_response_constant:
  "\<exists>ms. length ms = 3 \<and> list_all is_movie_record ms \<and>
     (\<forall>request. field ''response'' (recommend_movies request) = Some (PyList ms))"
  by (simp add: recommend_movies_def is_movie_record_def typed_def)

text \<open>
  C2: the \<open>query\<close> field of the value returned by \<open>recommend_movies\<close> is the list of the
  request's genres: the same strings in the same order, nothing added, dropped or changed.
\<close>

theorem recommend_movies_query_echo:
  "field ''query'' (recommend_movies request) = Some (PyList (map PyStr (genres request)))"
  by (simp add: recommend_movies_def)

text \<open>
  C3: called with no genres, \<open>recommend_movies\<close> returns an empty \<open>query\<close> and, as
  \<open>response\<close>, the three movies titled Inception, Dune: Part Two and Interstellar in that
  order; called with the genres horror and comedy it returns these two as \<open>query\<close> and the
  same \<open>response\<close>.
\<close>

theorem recommend_movies_scenarios:
  "field ''query'' (recommend_movies \<lparr>genres = []\<rparr>) = Some (PyList []) \<and>
   (\<exists>ms. field ''response'' (recommend_movies \<lparr>genres = []\<rparr>) = Some (PyList ms) \<and>
      length ms = 3 \<and>
      map (str_field ''title'') ms =
        [Some ''Inception'', Some ''Dune: Part Two'', Some ''Interstellar'']) \<and>
   field ''query'' (recommend_movies \<lparr>genres = [''horror'', ''comedy'']\<rparr>) =
     Some (PyList [PyStr ''horror'', PyStr ''comedy'']) \<and>
   field ''response'' (recommend_movies \<lparr>genres = [''horror'', ''comedy'']\<rparr>) =
     field ''response'' (recommend_movies \<lparr>genres = []\<rparr>)"
  by (simp add: recommend_movies_def)




text \<open>
  C6: every element of the \<open>response\<close> list returned by \<open>recommend_movies\<close> is a record
  with exactly the fields id (an integer), title, overview, release_date and poster_path
  (strings) and vote_average (a float), whatever the request.
\<close>

theorem recommend_movies_response_shape:
  "\<exists>ms. field ''response'' (recommend_movies request) = Some (PyList ms) \<and>
     list_all is_movie_record ms"
  by (simp add: recommend_movies_def is_movie_record_def typed_def)

text \<open>
  C9: the three movie records returned by \<open>recommend_movies\<close> have the ids 1, 2 and 3 in
  this order, so strictly increasing and pairwise distinct, and pairwise distinct titles.
\<close>

theorem recommend_movies_ids_titles_distinct:
  "\<exists>ms. field ''response'' (recommend_movies request) = Some (PyList ms) \<and>
     (\<exists>ids. map (int_field ''id'') ms = map Some ids \<and> ids = [1, 2, 3] \<and>
        sorted_wrt (<) ids \<and> distinct ids) \<and>
     (\<exists>ts. map (str_field ''title'') ms = map Some ts \<and> length ts = 3 \<and> distinct ts)"
proof -
  let ?ts = "[''Inception'', ''Dune: Part Two'', ''Interstellar'']"
  have "distinct ?ts" by simp
  then show ?thesis
    by (simp add: recommend_movies_def) (rule exI [of _ ?ts], simp)
qed

text \<open>
  C10: the release_date of every movie record returned by \<open>recommend_movies\<close> is a string
  of the form YYYY-MM-DD: ten characters, digits but for hyphens at the fifth and the eighth
  place.
\<close>

theorem recommend_movies_release_dates_iso:
  "\<exists>ms. field ''response'' (recommend_movies request) = Some (PyList ms) \<and>
     list_all has_iso_release_date ms"
  by (simp add: recommend_movies_def has_iso_release_date_def iso_date_def is_digit_def)

section \<open>The health check\<close>

text \<open>
  C5: the health check takes no input and never fails: the route always answers with the same
  record of a single pair, the key \<open>status\<close> with the string that says the service is
  running. It has no side effects: from any store, a call of \<open>root\<close> returns a reference
  that stands for this record, leaves the globals as they were and changes no object that
  was in the heap.
\<close>

theorem get_root_fixed_status:
  "get_root = Inr (PyDict [(''status'', PyStr ''Cinna GraphRAG backend is running!'')]) \<and>
   render (Suc k) (heap (snd (root_st s))) (fst (root_st s)) =
     Some (PyDict [(''status'', PyStr ''Cinna GraphRAG backend is running!'')]) \<and>
   globals (snd (root_st s)) = globals s \<and>
   take (length (heap s)) (heap (snd (root_st s))) = heap s"
  by (simp add: get_root_def respond_def root_def root_st_def alloc_def)

text \<open>
  C8: the status string returned by the health check is exactly
  "Cinna GraphRAG backend is running!".
\<close>

theorem root_status_text:
  "field ''status'' root = Some (PyStr ''Cinna GraphRAG backend is running!'') \<and>
   keys root = [''status'']"
  by (simp add: root_def)

section \<open>Determinism and statelessness\<close>

text \<open>
  C7: both operations are deterministic and stateless. Take any two stores, however their
  globals and heaps differ, and in each a request whose genres list holds the same strings.
  The two calls of \<open>recommend_movies\<close> return references that stand for the same value,
  the one the request alone determines; the returned dict is a new object; the globals are
  left as they were and no object that was in the heap is changed. The same holds of
  \<open>root\<close>, whose value is fixed.
\<close>

theorem handlers_deterministic_stateless:
  assumes "3 \<le> n"
    and "genres_ref r1 < length (heap s1)" and "heap s1 ! genres_ref r1 = HList (map HStr gs)"
    and "genres_ref r2 < length (heap s2)" and "heap s2 ! genres_ref r2 = HList (map HStr gs)"
  shows "fst (recommend_movies_st r1 s1) = HRef (length (heap s1) + 4) \<and>
         fst (root_st s1) = HRef (length (heap s1)) \<and>
         render n (heap (snd (recommend_movies_st r1 s1))) (fst (recommend_movies_st r1 s1)) =
           Some (recommend_movies \<lparr>genres = gs\<rparr>) \<and>
         render n (heap (snd (recommend_movies_st r2 s2))) (fst (recommend_movies_st r2 s2)) =
           render n (heap (snd (recommend_movies_st r1 s1))) (fst (recommend_movies_st r1 s1)) \<and>
         globals (snd (recommend_movies_st r1 s1)) = globals s1 \<and>
         take (length (heap s1)) (heap (snd (recommend_movies_st r1 s1))) = heap s1 \<and>
         render n (heap (snd (root_st s1))) (fst (root_st s1)) = Some root \<and>
         render n (heap (snd (root_st s2))) (fst (root_st s2)) =
           render n (heap (snd (root_st s1))) (fst (root_st s1)) \<and>
         globals (snd (root_st s1)) = globals s1 \<and>
         take (length (heap s1)) (heap (snd (root_st s1))) = heap s1"
proof -
  obtain k where n: "n = 3 + k"
    using assms(1) by (auto simp: nat_le_iff_add)
  have rec: "render (3 + k) (heap (snd (recommend_movies_st r s))) (fst (recommend_movies_st r s)) =
           Some (recommend_movies \<lparr>genres = gs\<rparr>)"
    if "genres_ref r < length (heap s)" and "heap s ! genres_ref r = HList (map HStr gs)"
    for r s
    using that
    by (simp add: recommend_movies_st_def recommend_movies_def alloc_def nth_append
        those_render_strs numeral_3_eq_3)
  have fresh: "fst (recommend_movies_st r s) = HRef (length (heap s) + 4)" for r s
    by (simp add: recommend_movies_st_def alloc_def)
  have keep: "globals (snd (recommend_movies_st r s)) = globals s \<and>
      take (length (heap s)) (heap (snd (recommend_movies_st r s))) = heap s" for r s
    by (simp add: recommend_movies_st_def alloc_def)
  have rt: "render (3 + k) (heap (snd (root_st s))) (fst (root_st s)) = Some root" for s
    by (simp add: root_st_def root_def alloc_def numeral_3_eq_3)
  have rt_fresh: "fst (root_st s) = HRef (length (heap s))" for s
    by (simp add: root_st_def alloc_def)
  have rt_keep: "globals (snd (root_st s)) = globals s \<and>
      take (length (heap s)) (heap (snd (root_st s))) = heap s" for s
    by (simp add: root_st_def alloc_def)
  have same: "render (3 + k) (heap (snd (recommend_movies_st r2 s2))) (fst (recommend_movies_st r2 s2)) =
      render (3 + k) (heap (snd (recommend_movies_st r1 s1))) (fst (recommend_movies_st r1 s1))"
    by (simp only: rec [OF assms(2,3)] rec [OF assms(4,5)])
  have same_root: "render (3 + k) (heap (snd (root_st s2))) (fst (root_st s2)) =
      render (3 + k) (heap (snd (root_st s1))) (fst (root_st s1))"
    by (simp only: rt)
  show ?thesis
    unfolding n
    using rec [OF assms(2,3)] same fresh [of r1 s1] keep [of r1 s1]
      rt [of s1] same_root rt_fresh [of s1] rt_keep [of s1]
    by blast
qed

theorem handlers_deterministic_stateless_witness:
  "(3::nat) \<le> 3 \<and>
   genres_ref request_a < length (heap store_a) \<and>
   heap store_a ! genres_ref request_a = HList (map HStr [''horror'']) \<and>
   genres_ref request_b < length (heap store_b) \<and>
   heap store_b ! genres_ref request_b = HList (map HStr [''horror'']) \<and>
   fst (recommend_movies_st request_a store_a) = HRef (length (heap store_a) + 4) \<and>
   fst (root_st store_a) = HRef (length (heap store_a)) \<and>
   render 3 (heap (snd (recommend_movies_st request_a store_a))) (fst (recommend_movies_st request_a store_a)) =
     Some (recommend_movies \<lparr>genres = [''horror'']\<rparr>) \<and>
   render 3 (heap (snd (recommend_movies_st request_b store_b))) (fst (recommend_movies_st request_b store_b)) =
     render 3 (heap (snd (recommend_movies_st request_a store_a))) (fst (recommend_movies_st request_a store_a)) \<and>
   globals (snd (recommend_movies_st request_a store_a)) = globals store_a \<and>
   take (length (heap store_a)) (heap (snd (recommend_movies_st request_a store_a))) = heap store_a \<and>
   render 3 (heap (snd (root_st store_a))) (fst (root_st store_a)) = Some root \<and>
   render 3 (heap (snd (root_st store_b))) (fst (root_st store_b)) =
     render 3 (heap (snd (root_st store_a))) (fst (root_st store_a)) \<and>
   globals (snd (root_st store_a)) = globals store_a \<and>
   take (length (heap store_a)) (heap (snd (root_st store_a))) = heap store_a"
proof -
  have h0: "(3::nat) \<le> 3"
    by simp
  have h1: "genres_ref request_a < length (heap store_a)"
    by (simp add: request_a_def store_a_def)
  have h2: "heap store_a ! genres_ref request_a = HList (map HStr [''horror''])"
    by (simp add: request_a_def store_a_def)
  have h3: "genres_ref request_b < length (heap store_b)"
    by (simp add: request_b_def store_b_def)
  have h4: "heap store_b ! genres_ref request_b = HList (map HStr [''horror''])"
    by (simp add: request_b_def store_b_def)
  show ?thesis
    using h0 h1 h2 h3 h4 handlers_deterministic_stateless [OF h0 h1 h2 h3 h4]
    by blast
qed

end
